theory Spec2Isabelle
  imports Complex_Main
begin

section \<open>Exceptions and HTTP responses\<close>

text \<open>
  The three services are FastAPI applications. A handler either returns a value, which
  the framework sends with status 200, or raises. The exceptions that occur in the
  modelled code are collected in one datatype:
  \<^item> \<open>HTTPException c\<close>: raised by the handlers and the authentication dependency, turned
    into a response with status \<open>c\<close> by \<^verbatim>\<open>http_exception_handler\<close>;
  \<^item> \<open>RequestValidationError\<close>: raised by the framework when a declared parameter is
    missing from the place it is bound to, turned into status 422 by
    \<^verbatim>\<open>validation_exception_handler\<close>;
  \<^item> \<open>TransportError\<close>: what \<^verbatim>\<open>httpx\<close> raises on a timeout or a connection error;
  \<^item> \<open>DatabaseError\<close>: what \<^verbatim>\<open>asyncpg\<close> raises when a statement fails. No handler is
    registered for it, so the framework answers 500.
\<close>

datatype exc =
    HTTPException int
  | RequestValidationError
  | TransportError
  | DatabaseError

fun status_code :: "exc + 'a \<Rightarrow> int" where
  "status_code (Inr _) = 200"
| "status_code (Inl (HTTPException c)) = c"
| "status_code (Inl RequestValidationError) = 422"
| "status_code (Inl TransportError) = 500"
| "status_code (Inl DatabaseError) = 500"

text \<open>
  A request as far as the modelled handlers read it: the credentials of the
  \<^verbatim>\<open>Authorization: Bearer\<close> header (\<open>None\<close> when the header is absent or not a bearer
  header), the query string and the form-encoded body, both as maps from field names to
  integers.
\<close>

record request =
  authorization :: "string option"
  query :: "string \<rightharpoonup> int"
  form :: "string \<rightharpoonup> int"

section \<open>Token verification\<close>

text \<open>
  \<^verbatim>\<open>jwt.decode\<close> belongs to the \<^verbatim>\<open>jose\<close> library and is a parameter of the model. It
  either raises \<^verbatim>\<open>JWTError\<close> or one of its subclasses \<^verbatim>\<open>ExpiredSignatureError\<close> and
  \<^verbatim>\<open>JWTClaimsError\<close> (a malformed token and a bad signature raise \<^verbatim>\<open>JWTError\<close> itself),
  or it returns the payload, a dictionary of claims.
\<close>

datatype jwt_error = JWTError | ExpiredSignatureError | JWTClaimsError

datatype jwt_result = Raises jwt_error | Payload "string \<rightharpoonup> string"

type_synonym decoder = "string \<Rightarrow> jwt_result"

text \<open>\<^verbatim>\<open>OAuth2PasswordBearer\<close>: no bearer credentials is a 401.\<close>

definition oauth2_scheme :: "request \<Rightarrow> exc + string" where
  "oauth2_scheme req =
     (case authorization req of
        None \<Rightarrow> Inl (HTTPException 401)
      | Some token \<Rightarrow> Inr token)"

text \<open>
  \<^verbatim>\<open>order_service/main.py\<close>, \<^verbatim>\<open>get_current_user\<close>. The clause \<^verbatim>\<open>except JWTError\<close>
  catches every \<open>jwt_error\<close>; the \<^verbatim>\<open>credentials_exception\<close> raised inside the
  \<^verbatim>\<open>try\<close> for a missing subject is not a \<^verbatim>\<open>JWTError\<close> and leaves the function as it is.
\<close>

definition order_get_current_user :: "decoder \<Rightarrow> request \<Rightarrow> exc + string" where
  "order_get_current_user jwt_decode req =
     (case oauth2_scheme req of
        Inl e \<Rightarrow> Inl e
      | Inr token \<Rightarrow>
          (case jwt_decode token of
             Raises _ \<Rightarrow> Inl (HTTPException 401)
           | Payload payload \<Rightarrow>
               (case payload ''sub'' of
                  None \<Rightarrow> Inl (HTTPException 401)
                | Some username \<Rightarrow> Inr username)))"

text \<open>
  \<^verbatim>\<open>product_service/main.py\<close>, \<^verbatim>\<open>get_current_user\<close>: the test is \<^verbatim>\<open>not username\<close>, so
  an empty subject is refused as well.
\<close>

definition product_get_current_user :: "decoder \<Rightarrow> request \<Rightarrow> exc + string" where
  "product_get_current_user jwt_decode req =
     (case oauth2_scheme req of
        Inl e \<Rightarrow> Inl e
      | Inr token \<Rightarrow>
          (case jwt_decode token of
             Raises _ \<Rightarrow> Inl (HTTPException 401)
           | Payload payload \<Rightarrow>
               (case payload ''sub'' of
                  None \<Rightarrow> Inl (HTTPException 401)
                | Some username \<Rightarrow>
                    if username = [] then Inl (HTTPException 401) else Inr username)))"

section \<open>Events\<close>

text \<open>
  The two messages the services publish, with the fields of their JSON bodies. A publish
  opens a connection to the broker, declares the exchange, publishes and closes; any of
  these can raise. The flag \<open>broker_ok\<close> of the publishing functions says whether the
  whole block ran through. When it did not, the \<^verbatim>\<open>except Exception\<close> clause logs a
  warning and the function goes on.
\<close>

datatype event =
    OrderCreated string int int
  | InventoryReserved int int

section \<open>Product service\<close>

record product =
  p_id :: int
  p_name :: string
  p_quantity :: int

text \<open>
  The state of the product service: the rows of \<^verbatim>\<open>product_service.products\<close>, the next
  value of the table's id sequence, the messages delivered to the \<^verbatim>\<open>inventory\<close> exchange
  and the warnings logged.
\<close>

record product_state =
  products :: "product list"
  product_seq :: int
  inventory_exchange :: "event list"
  product_log :: "string list"

text \<open>\<^verbatim>\<open>SELECT ... WHERE id=$1\<close> with \<^verbatim>\<open>fetchrow\<close>: the first matching row, if any.\<close>

definition fetch_product :: "int \<Rightarrow> product_state \<Rightarrow> product option" where
  "fetch_product product_id s = find (\<lambda>p. p_id p = product_id) (products s)"

text \<open>\<^verbatim>\<open>UPDATE ... SET quantity = quantity - $1 WHERE id=$2\<close>.\<close>

definition decrement_stock :: "int \<Rightarrow> int \<Rightarrow> product_state \<Rightarrow> product_state" where
  "decrement_stock quantity product_id s =
     s\<lparr>products :=
         map (\<lambda>p. if p_id p = product_id then p\<lparr>p_quantity := p_quantity p - quantity\<rparr> else p)
           (products s)\<rparr>"

text \<open>The \<^verbatim>\<open>try\<close> block at the end of \<^verbatim>\<open>reserve_inventory\<close>.\<close>

definition publish_inventory_event :: "bool \<Rightarrow> int \<Rightarrow> int \<Rightarrow> product_state \<Rightarrow> product_state" where
  "publish_inventory_event broker_ok product_id quantity s =
     (if broker_ok
      then s\<lparr>inventory_exchange := inventory_exchange s @ [InventoryReserved product_id quantity]\<rparr>
      else s\<lparr>product_log := product_log s @ [''Could not publish inventory event'']\<rparr>)"

text \<open>
  The body of \<^verbatim>\<open>reserve_inventory\<close> (\<^verbatim>\<open>product_service/main.py\<close>), once the framework
  has bound \<^verbatim>\<open>product_id\<close> and \<^verbatim>\<open>quantity\<close> and the dependency has authenticated the
  caller. The result is the pair of what the handler returns or raises and the state it
  leaves; the returned \<^verbatim>\<open>{"status": "reserved"}\<close> is the string \<open>''reserved''\<close>.
\<close>

definition product_reserve_inventory ::
  "bool \<Rightarrow> int \<Rightarrow> int \<Rightarrow> product_state \<Rightarrow> (exc + string) \<times> product_state" where
  "product_reserve_inventory broker_ok product_id quantity s =
     (case fetch_product product_id s of
        None \<Rightarrow> (Inl (HTTPException 404), s)
      | Some product \<Rightarrow>
          if p_quantity product < quantity then (Inl (HTTPException 409), s)
          else (Inr ''reserved'',
                publish_inventory_event broker_ok product_id quantity
                  (decrement_stock quantity product_id s)))"

text \<open>The stock of a product as a reader of the table sees it.\<close>

definition stock :: "product_state \<Rightarrow> int \<Rightarrow> int option" where
  "stock s product_id = map_option p_quantity (fetch_product product_id s)"

text \<open>
  \<^verbatim>\<open>add_product\<close>: the insert takes the id from the table's sequence. The request body
  is a \<^verbatim>\<open>ProductCreate\<close>, whose \<^verbatim>\<open>quantity\<close> is any integer.
\<close>

definition add_product ::
  "decoder \<Rightarrow> request \<Rightarrow> string \<Rightarrow> int \<Rightarrow> product_state \<Rightarrow> (exc + product) \<times> product_state" where
  "add_product jwt_decode req name quantity s =
     (case product_get_current_user jwt_decode req of
        Inl e \<Rightarrow> (Inl e, s)
      | Inr user \<Rightarrow>
          (let row = \<lparr>p_id = product_seq s, p_name = name, p_quantity = quantity\<rparr>
           in (Inr row, s\<lparr>products := products s @ [row], product_seq := product_seq s + 1\<rparr>)))"

text \<open>
  \<^verbatim>\<open>delete_product\<close>: the command tag \<^verbatim>\<open>DELETE 0\<close> means that no row matched. The
  message returned on success is shortened to \<open>''deleted''\<close>.
\<close>

definition delete_product ::
  "decoder \<Rightarrow> request \<Rightarrow> int \<Rightarrow> product_state \<Rightarrow> (exc + string) \<times> product_state" where
  "delete_product jwt_decode req product_id s =
     (case product_get_current_user jwt_decode req of
        Inl e \<Rightarrow> (Inl e, s)
      | Inr user \<Rightarrow>
          if filter (\<lambda>p. p_id p = product_id) (products s) = []
          then (Inl (HTTPException 404), s)
          else (Inr ''deleted'', s\<lparr>products := filter (\<lambda>p. p_id p \<noteq> product_id) (products s)\<rparr>))"

text \<open>
  The route \<^verbatim>\<open>POST /inventory/reserve\<close> as the framework serves it. The dependency
  \<^verbatim>\<open>get_current_user\<close> is solved first. The parameters \<^verbatim>\<open>product_id: int\<close> and
  \<^verbatim>\<open>quantity: int\<close> are declared without \<^verbatim>\<open>Body\<close> or \<^verbatim>\<open>Form\<close> and are not part of the
  path, so FastAPI reads them from the query string; when one is missing there the request
  is answered 422 and the handler does not run. The body of the request is not read.
\<close>

definition reserve_route ::
  "decoder \<Rightarrow> bool \<Rightarrow> request \<Rightarrow> product_state \<Rightarrow> (exc + string) \<times> product_state" where
  "reserve_route jwt_decode broker_ok req s =
     (case product_get_current_user jwt_decode req of
        Inl e \<Rightarrow> (Inl e, s)
      | Inr user \<Rightarrow>
          (case query req ''product_id'' of
             None \<Rightarrow> (Inl RequestValidationError, s)
           | Some product_id \<Rightarrow>
               (case query req ''quantity'' of
                  None \<Rightarrow> (Inl RequestValidationError, s)
                | Some quantity \<Rightarrow> product_reserve_inventory broker_ok product_id quantity s)))"

section \<open>Order service\<close>

record order =
  o_id :: int
  o_productname :: string
  o_product_id :: int
  o_quantity :: int
  o_username :: string
  o_status :: string

text \<open>
  The state of the order service: the rows of \<^verbatim>\<open>order_service.orders\<close>, the next value
  of the table's id sequence (the statement's \<^verbatim>\<open>RETURNING id\<close> hands back an id the
  database assigned), the messages delivered to the \<^verbatim>\<open>orders\<close> exchange and the warnings
  logged.
\<close>

record order_state =
  orders :: "order list"
  order_seq :: int
  orders_exchange :: "event list"
  order_log :: "string list"

subsection \<open>The reservation client\<close>

text \<open>
  What one \<^verbatim>\<open>client.post\<close> yields: it raises (timeout, connection error) or returns a
  response with a status code. The remote service is a parameter: a function from the
  request and the remote state to the outcome of the attempt and the next remote state.
  The record \<open>net\<close> holds what the order service does outside its own database: the
  remote state after the calls made so far, the requests sent and the delays slept, both
  in order.
\<close>

datatype attempt = Raised | Response int

type_synonym 'r remote = "request \<Rightarrow> 'r \<Rightarrow> attempt \<times> 'r"

record 'r net =
  remote_state :: 'r
  sent :: "request list"
  slept :: "rat list"

definition post :: "'r remote \<Rightarrow> request \<Rightarrow> 'r net \<Rightarrow> attempt \<times> 'r net" where
  "post remote out w =
     (case remote out (remote_state w) of
        (a, r) \<Rightarrow> (a, w\<lparr>remote_state := r, sent := sent w @ [out]\<rparr>))"

definition sleep :: "rat \<Rightarrow> 'r net \<Rightarrow> 'r net" where
  "sleep delay w = w\<lparr>slept := slept w @ [delay]\<rparr>"

definition backoff :: "rat list" where
  "backoff = [0.2, 0.5, 1.0]"

text \<open>
  The request the client sends: \<^verbatim>\<open>data={"product_id": ..., "quantity": ...}\<close> is a
  form-encoded body, the \<^verbatim>\<open>Authorization\<close> header of the incoming request is copied, and
  the URL carries no query string.
\<close>

definition reserve_request :: "request \<Rightarrow> int \<Rightarrow> int \<Rightarrow> request" where
  "reserve_request req product_id quantity =
     \<lparr>authorization = authorization req,
      query = Map.empty,
      form = [''product_id'' \<mapsto> product_id, ''quantity'' \<mapsto> quantity]\<rparr>"

text \<open>
  The \<^verbatim>\<open>for delay in backoff\<close> loop of \<^verbatim>\<open>reserve_inventory\<close>
  (\<^verbatim>\<open>order_service/main.py\<close>), with \<^verbatim>\<open>last_exc\<close> carried along, and the statement
  after it. Per attempt:
  \<^item> \<^verbatim>\<open>client.post\<close> raises: the \<^verbatim>\<open>except Exception\<close> clause stores the exception and
    sleeps;
  \<^item> status 200: \<^verbatim>\<open>return\<close>;
  \<^item> status 404 or 409: \<^verbatim>\<open>raise HTTPException\<close> inside the \<^verbatim>\<open>try\<close>; \<^verbatim>\<open>HTTPException\<close>
    is an \<^verbatim>\<open>Exception\<close>, so the same clause catches it, stores it and sleeps;
  \<^item> any other status: neither \<^verbatim>\<open>if\<close> applies, nothing is raised, and the loop goes to
    the next delay without sleeping.
  After the loop, \<^verbatim>\<open>if last_exc\<close> raises 502; otherwise the function ends and returns
  \<^verbatim>\<open>None\<close>.
\<close>

fun retry_loop ::
  "'r remote \<Rightarrow> request \<Rightarrow> rat list \<Rightarrow> exc option \<Rightarrow> 'r net \<Rightarrow> (exc + unit) \<times> 'r net" where
  "retry_loop remote out [] last_exc w =
     (case last_exc of
        Some _ \<Rightarrow> (Inl (HTTPException 502), w)
      | None \<Rightarrow> (Inr (), w))"
| "retry_loop remote out (delay # rest) last_exc w =
     (case post remote out w of
        (Raised, w1) \<Rightarrow> retry_loop remote out rest (Some TransportError) (sleep delay w1)
      | (Response code, w1) \<Rightarrow>
          if code = 200 then (Inr (), w1)
          else if code = 404 \<or> code = 409
          then retry_loop remote out rest (Some (HTTPException code)) (sleep delay w1)
          else retry_loop remote out rest last_exc w1)"

definition order_reserve_inventory ::
  "'r remote \<Rightarrow> request \<Rightarrow> int \<Rightarrow> int \<Rightarrow> 'r net \<Rightarrow> (exc + unit) \<times> 'r net" where
  "order_reserve_inventory remote req product_id quantity w =
     retry_loop remote (reserve_request req product_id quantity) backoff None w"

subsection \<open>Persistence and publication\<close>

text \<open>
  \<^verbatim>\<open>insert_order\<close>: one \<^verbatim>\<open>INSERT ... RETURNING\<close> statement with the literal status
  \<^verbatim>\<open>'CONFIRMED'\<close>. The flag \<open>db_ok\<close> says whether the statement ran; when it raises, the
  table is as it was.
\<close>

definition insert_order ::
  "bool \<Rightarrow> string \<Rightarrow> int \<Rightarrow> int \<Rightarrow> string \<Rightarrow> order_state \<Rightarrow> (exc + order) \<times> order_state" where
  "insert_order db_ok productname product_id quantity username s =
     (if db_ok
      then (let row = \<lparr>o_id = order_seq s, o_productname = productname,
                        o_product_id = product_id, o_quantity = quantity,
                        o_username = username, o_status = ''CONFIRMED''\<rparr>
            in (Inr row, s\<lparr>orders := orders s @ [row], order_seq := order_seq s + 1\<rparr>))
      else (Inl DatabaseError, s))"

definition publish_order_event :: "bool \<Rightarrow> string \<Rightarrow> int \<Rightarrow> int \<Rightarrow> order_state \<Rightarrow> order_state" where
  "publish_order_event broker_ok username product_id quantity s =
     (if broker_ok
      then s\<lparr>orders_exchange := orders_exchange s @ [OrderCreated username product_id quantity]\<rparr>
      else s\<lparr>order_log := order_log s @ [''Could not publish order event'']\<rparr>)"

subsection \<open>Routes\<close>

text \<open>
  \<^verbatim>\<open>create_order\<close>: the dependency \<^verbatim>\<open>get_current_user\<close>, then the three calls of the
  body in order. An exception of any of them ends the handler there. The value returned
  is the inserted row (the \<^verbatim>\<open>data\<close> of the response \<^verbatim>\<open>Order placed\<close>).
\<close>

definition create_order ::
  "decoder \<Rightarrow> 'r remote \<Rightarrow> bool \<Rightarrow> bool \<Rightarrow> request \<Rightarrow> string \<Rightarrow> int \<Rightarrow> int \<Rightarrow>
   order_state \<Rightarrow> 'r net \<Rightarrow> (exc + order) \<times> order_state \<times> 'r net" where
  "create_order jwt_decode remote db_ok broker_ok req productname product_id quantity s w =
     (case order_get_current_user jwt_decode req of
        Inl e \<Rightarrow> (Inl e, s, w)
      | Inr user \<Rightarrow>
          (case order_reserve_inventory remote req product_id quantity w of
             (Inl e, w1) \<Rightarrow> (Inl e, s, w1)
           | (Inr _, w1) \<Rightarrow>
               (case insert_order db_ok productname product_id quantity user s of
                  (Inl e, s1) \<Rightarrow> (Inl e, s1, w1)
                | (Inr row, s1) \<Rightarrow>
                    (Inr row, publish_order_event broker_ok user product_id quantity s1, w1))))"

text \<open>
  \<^verbatim>\<open>delete_order\<close>: \<^verbatim>\<open>DELETE FROM order_service.orders WHERE id=$1\<close>, with 404 for
  the command tag \<^verbatim>\<open>DELETE 0\<close>. The authenticated \<^verbatim>\<open>user\<close> is not used in the body. The
  message returned on success is shortened to \<open>''deleted''\<close>.
\<close>

definition delete_order ::
  "decoder \<Rightarrow> request \<Rightarrow> int \<Rightarrow> order_state \<Rightarrow> (exc + string) \<times> order_state" where
  "delete_order jwt_decode req order_id s =
     (case order_get_current_user jwt_decode req of
        Inl e \<Rightarrow> (Inl e, s)
      | Inr user \<Rightarrow>
          if filter (\<lambda>r. o_id r = order_id) (orders s) = []
          then (Inl (HTTPException 404), s)
          else (Inr ''deleted'', s\<lparr>orders := filter (\<lambda>r. o_id r \<noteq> order_id) (orders s)\<rparr>))"

text \<open>\<^verbatim>\<open>list_orders\<close>: \<^verbatim>\<open>SELECT * ... WHERE username=$1\<close> with the authenticated user.\<close>

definition list_orders :: "decoder \<Rightarrow> request \<Rightarrow> order_state \<Rightarrow> exc + order list" where
  "list_orders jwt_decode req s =
     (case order_get_current_user jwt_decode req of
        Inl e \<Rightarrow> Inl e
      | Inr user \<Rightarrow> Inr (filter (\<lambda>r. o_username r = user) (orders s)))"

subsection \<open>The operations as a transition system\<close>

text \<open>
  One step of the order service is one request served by one of its three routes; the
  remote it talks to is any function on the state of the product service. A state is
  reachable when a run of steps leads to it from an empty table. The statement the
  service runs at startup (\<^verbatim>\<open>ALTER TABLE ... ADD COLUMN IF NOT EXISTS productname\<close>)
  changes the schema and no row's id, owner or status; it is not a step.
\<close>

inductive order_step :: "order_state \<Rightarrow> order_state \<Rightarrow> bool" where
  step_create:
    "create_order jwt_decode (remote :: product_state remote) db_ok broker_ok req
       productname product_id quantity s w = (res, s', w') \<Longrightarrow> order_step s s'"
| step_delete:
    "delete_order jwt_decode req order_id s = (res, s') \<Longrightarrow> order_step s s'"
| step_list:
    "list_orders jwt_decode req s = res \<Longrightarrow> order_step s s"

inductive reachable :: "order_state \<Rightarrow> bool" where
  initial: "orders s = [] \<Longrightarrow> reachable s"
| after_step: "reachable s \<Longrightarrow> order_step s s' \<Longrightarrow> reachable s'"

text \<open>
  The invariant of the table behind the reachable states: every row is \<^verbatim>\<open>CONFIRMED\<close>,
  every id is below the next value of the sequence, and no id occurs twice.
\<close>

definition table_ok :: "order_state \<Rightarrow> bool" where
  "table_ok s \<longleftrightarrow>
     list_all (\<lambda>r. o_status r = ''CONFIRMED'' \<and> o_id r < order_seq s) (orders s)
     \<and> distinct (map o_id (orders s))"

section \<open>Example data\<close>

text \<open>A decoder for four tokens; every other string is malformed.\<close>

definition tokens :: decoder where
  "tokens token =
     (if token = ''alice-token'' then Payload [''sub'' \<mapsto> ''alice'']
      else if token = ''bob-token'' then Payload [''sub'' \<mapsto> ''bob'']
      else if token = ''anonymous-token'' then Payload Map.empty
      else if token = ''old-token'' then Raises ExpiredSignatureError
      else Raises JWTError)"

definition bearer :: "string \<Rightarrow> request" where
  "bearer token = \<lparr>authorization = Some token, query = Map.empty, form = Map.empty\<rparr>"

text \<open>Product 42 with five pieces in stock, as in the scenario of the spec.\<close>

definition shop :: product_state where
  "shop = \<lparr>products = [\<lparr>p_id = 42, p_name = ''widget'', p_quantity = 5\<rparr>],
           product_seq = 43, inventory_exchange = [], product_log = []\<rparr>"

definition empty_shop :: product_state where
  "empty_shop = \<lparr>products = [], product_seq = 1, inventory_exchange = [], product_log = []\<rparr>"

definition no_orders :: order_state where
  "no_orders = \<lparr>orders = [], order_seq = 1, orders_exchange = [], order_log = []\<rparr>"

definition idle :: "'r \<Rightarrow> 'r net" where
  "idle r = \<lparr>remote_state = r, sent = [], slept = []\<rparr>"

text \<open>A remote that gives every attempt the same status, and one that cannot be reached.\<close>

definition answers :: "int \<Rightarrow> 'r remote" where
  "answers code req r = (Response code, r)"

definition unreachable :: "'r remote" where
  "unreachable req r = (Raised, r)"

text \<open>
  The product service behind its route \<^verbatim>\<open>POST /inventory/reserve\<close>, as a remote: the
  status of the response and the state the request leaves.
\<close>

definition product_service :: "decoder \<Rightarrow> bool \<Rightarrow> product_state remote" where
  "product_service jwt_decode broker_ok req s =
     (case reserve_route jwt_decode broker_ok req s of
        (res, s') \<Rightarrow> (Response (status_code res), s'))"

text \<open>
  A reservation server that takes the two fields from the body of the request and runs
  the handler of the product service on them: a remote that can answer 200 to the
  request the client sends, for the examples that need a successful reservation.
\<close>

definition body_server :: "bool \<Rightarrow> product_state remote" where
  "body_server broker_ok req s =
     (case form req ''product_id'' of
        None \<Rightarrow> (Response 422, s)
      | Some product_id \<Rightarrow>
          (case form req ''quantity'' of
             None \<Rightarrow> (Response 422, s)
           | Some quantity \<Rightarrow>
               (case product_reserve_inventory broker_ok product_id quantity s of
                  (res, s') \<Rightarrow> (Response (status_code res), s'))))"

text \<open>
  The order service after alice has ordered two widgets, and after bob has ordered one
  more.
\<close>

definition alices_order :: order_state where
  "alices_order =
     \<lparr>orders = [\<lparr>o_id = 1, o_productname = ''widget'', o_product_id = 42, o_quantity = 2,
                 o_username = ''alice'', o_status = ''CONFIRMED''\<rparr>],
      order_seq = 2, orders_exchange = [OrderCreated ''alice'' 42 2], order_log = []\<rparr>"

definition two_orders :: order_state where
  "two_orders =
     \<lparr>orders = [\<lparr>o_id = 1, o_productname = ''widget'', o_product_id = 42, o_quantity = 2,
                 o_username = ''alice'', o_status = ''CONFIRMED''\<rparr>,
                \<lparr>o_id = 2, o_productname = ''widget'', o_product_id = 42, o_quantity = 1,
                 o_username = ''bob'', o_status = ''CONFIRMED''\<rparr>],
      order_seq = 3,
      orders_exchange = [OrderCreated ''alice'' 42 2, OrderCreated ''bob'' 42 1],
      order_log = []\<rparr>"

text \<open>
  What the order service has done outside its database once \<open>body_server\<close> has reserved
  two widgets of \<open>shop\<close> for alice.
\<close>

definition reserved_two :: "product_state net" where
  "reserved_two =
     \<lparr>remote_state =
        \<lparr>products = [\<lparr>p_id = 42, p_name = ''widget'', p_quantity = 3\<rparr>],
         product_seq = 43, inventory_exchange = [InventoryReserved 42 2], product_log = []\<rparr>,
      sent = [reserve_request (bearer ''alice-token'') 42 2], slept = []\<rparr>"

text \<open>
  The product table after \<^verbatim>\<open>POST /products\<close> with the body
  \<^verbatim>\<open>{"name": "voucher", "quantity": -5}\<close> on an empty table.
\<close>

definition overdrawn :: product_state where
  "overdrawn = snd (add_product tokens (bearer ''alice-token'') ''voucher'' (- 5) empty_shop)"

text \<open>
  The outcome of alice's order when the broker is down for both services: the response,
  the state of the order service, and what it has done outside its database.
\<close>

definition unannounced :: "(exc + order) \<times> order_state \<times> product_state net" where
  "unannounced =
     (Inr \<lparr>o_id = 1, o_productname = ''widget'', o_product_id = 42, o_quantity = 2,
            o_username = ''alice'', o_status = ''CONFIRMED''\<rparr>,
      \<lparr>orders = [\<lparr>o_id = 1, o_productname = ''widget'', o_product_id = 42, o_quantity = 2,
                  o_username = ''alice'', o_status = ''CONFIRMED''\<rparr>],
       order_seq = 2, orders_exchange = [], order_log = [''Could not publish order event'']\<rparr>,
      \<lparr>remote_state =
         \<lparr>products = [\<lparr>p_id = 42, p_name = ''widget'', p_quantity = 3\<rparr>],
          product_seq = 43, inventory_exchange = [],
          product_log = [''Could not publish inventory event'']\<rparr>,
       sent = [reserve_request (bearer ''alice-token'') 42 2], slept = []\<rparr>)"

section \<open>The reservation server\<close>

lemma find_decrement_same:
  "find (\<lambda>p. p_id p = i)
     (map (\<lambda>p. if p_id p = i then p\<lparr>p_quantity := p_quantity p - n\<rparr> else p) xs)
   = map_option (\<lambda>p. p\<lparr>p_quantity := p_quantity p - n\<rparr>) (find (\<lambda>p. p_id p = i) xs)"
  by (induction xs) auto

lemma find_decrement_other:
  "j \<noteq> i \<Longrightarrow>
   find (\<lambda>p. p_id p = j)
     (map (\<lambda>p. if p_id p = i then p\<lparr>p_quantity := p_quantity p - n\<rparr> else p) xs)
   = find (\<lambda>p. p_id p = j) xs"
  by (induction xs) auto

lemma products_publish_inventory_event [simp]:
  "products (publish_inventory_event b i n s) = products s"
  by (simp add: publish_inventory_event_def)

lemma stock_publish_inventory_event [simp]:
  "stock (publish_inventory_event b i n s) = stock s"
  by (rule ext) (simp add: stock_def fetch_product_def)

lemma stock_decrement_same:
  "stock (decrement_stock n i s) i = map_option (\<lambda>q. q - n) (stock s i)"
  by (simp add: stock_def fetch_product_def decrement_stock_def find_decrement_same
      option.map_comp comp_def)

lemma stock_decrement_other:
  "j \<noteq> i \<Longrightarrow> stock (decrement_stock n i s) j = stock s j"
  by (simp add: stock_def fetch_product_def decrement_stock_def find_decrement_other)

lemma reserve_missing:
  "stock s i = None \<Longrightarrow> product_reserve_inventory b i n s = (Inl (HTTPException 404), s)"
  by (simp add: stock_def product_reserve_inventory_def)

lemma reserve_short:
  "stock s i = Some q \<Longrightarrow> q < n \<Longrightarrow>
   product_reserve_inventory b i n s = (Inl (HTTPException 409), s)"
  by (auto simp: stock_def product_reserve_inventory_def)

lemma reserve_enough:
  "stock s i = Some q \<Longrightarrow> n \<le> q \<Longrightarrow>
   product_reserve_inventory b i n s =
     (Inr ''reserved'', publish_inventory_event b i n (decrement_stock n i s))"
  by (auto simp: stock_def product_reserve_inventory_def)





lemma overdrawn_table:
  "overdrawn = \<lparr>products = [\<lparr>p_id = 1, p_name = ''voucher'', p_quantity = - 5\<rparr>],
                product_seq = 2, inventory_exchange = [], product_log = []\<rparr>"
  by (simp add: overdrawn_def add_product_def product_get_current_user_def oauth2_scheme_def
      tokens_def bearer_def empty_shop_def Let_def)


lemma alice_is_known [simp]:
  "order_get_current_user tokens (bearer ''alice-token'') = Inr ''alice''"
  "product_get_current_user tokens (bearer ''alice-token'') = Inr ''alice''"
  by (simp_all add: order_get_current_user_def product_get_current_user_def oauth2_scheme_def
      tokens_def bearer_def)

text \<open>
  C4. The request the order service sends (valid token, \<^verbatim>\<open>product_id\<close> and \<^verbatim>\<open>quantity\<close>
  in the body, no query string) is answered 422 by the route of the product service,
  which looks for the two parameters in the query string; the stock of the product is
  not touched. The status is none of 200, 404, 409 and no 5xx.
\<close>

theorem body_arguments_rejected:
  "reserve_route tokens True (reserve_request (bearer ''alice-token'') 42 3) shop
     = (Inl RequestValidationError, shop)
   \<and> status_code
        (fst (reserve_route tokens True (reserve_request (bearer ''alice-token'') 42 3) shop))
     = 422
   \<and> stock shop 42 = Some 5"
  by (simp add: reserve_route_def product_get_current_user_def oauth2_scheme_def tokens_def
      bearer_def reserve_request_def stock_def fetch_product_def shop_def)

text \<open>The same two parameters in the query string reach the handler.\<close>

lemma query_arguments_accepted:
  "fst (reserve_route tokens True ((bearer ''alice-token'')
          \<lparr>query := [''product_id'' \<mapsto> 42, ''quantity'' \<mapsto> 3]\<rparr>) shop) = Inr ''reserved''"
  by (simp add: reserve_route_def product_get_current_user_def oauth2_scheme_def tokens_def
      bearer_def product_reserve_inventory_def fetch_product_def shop_def)

section \<open>The reservation client\<close>

text \<open>
  C1. When the remote answers every attempt with 404, the client does not return the 404:
  the \<^verbatim>\<open>HTTPException\<close> it raises is caught by its own \<^verbatim>\<open>except Exception\<close>, so it
  sleeps, tries again, and after three attempts and the three delays raises 502. The same
  happens with 409.
\<close>

theorem business_rejection_retried:
  "order_reserve_inventory (answers 404) (bearer ''alice-token'') 99 1 (idle ())
     = (Inl (HTTPException 502),
        \<lparr>remote_state = (),
         sent = [reserve_request (bearer ''alice-token'') 99 1,
                 reserve_request (bearer ''alice-token'') 99 1,
                 reserve_request (bearer ''alice-token'') 99 1],
         slept = [0.2, 0.5, 1.0]\<rparr>)
   \<and> order_reserve_inventory (answers 409) (bearer ''alice-token'') 42 9 (idle ())
     = (Inl (HTTPException 502),
        \<lparr>remote_state = (),
         sent = [reserve_request (bearer ''alice-token'') 42 9,
                 reserve_request (bearer ''alice-token'') 42 9,
                 reserve_request (bearer ''alice-token'') 42 9],
         slept = [0.2, 0.5, 1.0]\<rparr>)"
  by (simp add: order_reserve_inventory_def backoff_def post_def sleep_def answers_def idle_def)

text \<open>
  Attempts that raise are handled as the spec says: three attempts, the three delays, then
  502, and the handler of \<^verbatim>\<open>create_order\<close> inserts nothing.
\<close>

lemma transport_failures_exhaust:
  "order_reserve_inventory unreachable req product_id quantity w
     = (Inl (HTTPException 502),
        w\<lparr>sent := sent w @ [reserve_request req product_id quantity,
                             reserve_request req product_id quantity,
                             reserve_request req product_id quantity],
          slept := slept w @ [0.2, 0.5, 1.0]\<rparr>)"
  by (simp add: order_reserve_inventory_def backoff_def post_def sleep_def unreachable_def)

lemma unreachable_aborts_order:
  "order_get_current_user jwt_decode req = Inr user \<Longrightarrow>
   fst (create_order jwt_decode unreachable db_ok broker_ok req productname product_id quantity
          s w) = Inl (HTTPException 502)
   \<and> fst (snd (create_order jwt_decode unreachable db_ok broker_ok req productname product_id
          quantity s w)) = s"
  by (simp add: create_order_def transport_failures_exhaust)

text \<open>
  C2. When the remote answers every attempt with 500, the client neither sleeps nor
  fails: no branch of the loop handles the status, \<^verbatim>\<open>last_exc\<close> stays \<^verbatim>\<open>None\<close>, and
  after the third attempt the function returns. \<^verbatim>\<open>create_order\<close> goes on, inserts the
  order row and answers with it.
\<close>

theorem server_errors_pass_as_success:
  "create_order tokens (answers 500) True True (bearer ''alice-token'') ''widget'' 42 2
     no_orders (idle ())
   = (Inr \<lparr>o_id = 1, o_productname = ''widget'', o_product_id = 42, o_quantity = 2,
            o_username = ''alice'', o_status = ''CONFIRMED''\<rparr>,
      alices_order,
      \<lparr>remote_state = (),
       sent = [reserve_request (bearer ''alice-token'') 42 2,
               reserve_request (bearer ''alice-token'') 42 2,
               reserve_request (bearer ''alice-token'') 42 2],
       slept = []\<rparr>)"
  by (simp add: create_order_def order_reserve_inventory_def backoff_def post_def sleep_def
      answers_def idle_def insert_order_def publish_order_event_def no_orders_def
      alices_order_def Let_def)

text \<open>
  The order service against the route of the product service: the three attempts are
  answered 422, the client returns as after a success, and no stock is reserved.
\<close>

lemma order_against_product_service:
  "order_reserve_inventory (product_service tokens True) (bearer ''alice-token'') 42 2
     (idle shop)
   = (Inr (),
      \<lparr>remote_state = shop,
       sent = [reserve_request (bearer ''alice-token'') 42 2,
               reserve_request (bearer ''alice-token'') 42 2,
               reserve_request (bearer ''alice-token'') 42 2],
       slept = []\<rparr>)"
  by (simp add: order_reserve_inventory_def backoff_def post_def product_service_def
      reserve_route_def product_get_current_user_def oauth2_scheme_def tokens_def bearer_def
      reserve_request_def idle_def)

text \<open>Every request the loop sends is the one it was given, at most one per delay.\<close>

lemma retry_loop_sent:
  "\<exists>k. k \<le> length ds
     \<and> sent (snd (retry_loop remote out ds last_exc w)) = sent w @ replicate k out"
proof (induction ds arbitrary: last_exc w)
  case Nil
  then show ?case by (simp split: option.splits)
next
  case (Cons d ds)
  obtain a r where rem: "remote out (remote_state w) = (a, r)"
    by (cases "remote out (remote_state w)")
  let ?w1 = "w\<lparr>remote_state := r, sent := sent w @ [out]\<rparr>"
  have p: "post remote out w = (a, ?w1)" by (simp add: post_def rem)
  have rest: "\<exists>k. k \<le> length (d # ds)
      \<and> sent (snd (retry_loop remote out ds le w')) = sent w @ replicate k out"
    if "sent w' = sent w @ [out]" for le w'
  proof -
    from Cons.IH [of le w'] obtain k where k: "k \<le> length ds"
      "sent (snd (retry_loop remote out ds le w')) = sent w' @ replicate k out" by blast
    then have "sent (snd (retry_loop remote out ds le w')) = sent w @ replicate (Suc k) out"
      using that by simp
    with k(1) show ?thesis by (intro exI [of _ "Suc k"]) simp
  qed
  show ?case
  proof (cases a)
    case Raised
    then show ?thesis using rest [of "sleep d ?w1" "Some TransportError"] p
      by (simp add: sleep_def)
  next
    case (Response code)
    show ?thesis
    proof (cases "code = 200")
      case True
      have "sent ?w1 = sent w @ replicate (Suc 0) out" by simp
      then show ?thesis using p Response True
        by (intro exI [of _ "Suc 0"]) simp
    next
      case False
      then show ?thesis
        using rest [of "sleep d ?w1" "Some (HTTPException code)"] rest [of ?w1 last_exc]
          p Response
        by (simp add: sleep_def)
    qed
  qed
qed

section \<open>Authentication\<close>

lemma order_rejects:
  assumes "authorization req = Some token"
    and "jwt_decode token = Raises e
         \<or> (jwt_decode token = Payload payload \<and> payload ''sub'' = None)"
  shows "order_get_current_user jwt_decode req = Inl (HTTPException 401)"
  using assms by (auto simp: order_get_current_user_def oauth2_scheme_def)

lemma product_rejects:
  assumes "authorization req = Some token"
    and "jwt_decode token = Raises e
         \<or> (jwt_decode token = Payload payload \<and> payload ''sub'' = None)"
  shows "product_get_current_user jwt_decode req = Inl (HTTPException 401)"
  using assms by (auto simp: product_get_current_user_def oauth2_scheme_def)



section \<open>Order placement\<close>


lemma reserve_two:
  "order_reserve_inventory (body_server True) (bearer ''alice-token'') 42 2 (idle shop)
     = (Inr (), reserved_two)"
  by (simp add: order_reserve_inventory_def backoff_def post_def body_server_def
      reserve_request_def product_reserve_inventory_def fetch_product_def shop_def idle_def
      decrement_stock_def publish_inventory_event_def reserved_two_def)


lemma orders_publish_order_event [simp]:
  "orders (publish_order_event b u i n s) = orders s"
  "order_seq (publish_order_event b u i n s) = order_seq s"
  by (simp_all add: publish_order_event_def)

text \<open>
  C8. A publish that fails changes nothing the caller sees and undoes nothing. For
  \<^verbatim>\<open>create_order\<close>: the response, the order table and everything done to the remote are
  the same whether the publish of \<^verbatim>\<open>OrderCreated\<close> fails or not; and when the response
  with a failed publish is the placed order, its row is in the table, one warning is
  logged and nothing reached the exchange. For the server's \<^verbatim>\<open>reserve_inventory\<close>: the
  result and the product table are the same whether the publish of
  \<^verbatim>\<open>InventoryReserved\<close> fails or not; and when the result with a failed publish is
  \<^verbatim>\<open>reserved\<close>, the stock is decremented, one warning is logged and nothing reached the
  exchange.
\<close>

theorem publish_failure_swallowed:
  "fst (create_order jwt_decode remote db_ok False req productname product_id quantity s w)
     = fst (create_order jwt_decode remote db_ok True req productname product_id quantity s w)
   \<and> orders (fst (snd (create_order jwt_decode remote db_ok False req productname product_id
        quantity s w)))
     = orders (fst (snd (create_order jwt_decode remote db_ok True req productname product_id
        quantity s w)))
   \<and> snd (snd (create_order jwt_decode remote db_ok False req productname product_id
        quantity s w))
     = snd (snd (create_order jwt_decode remote db_ok True req productname product_id
        quantity s w))
   \<and> (\<forall>row. fst (create_order jwt_decode remote db_ok False req productname product_id
                quantity s w) = Inr row \<longrightarrow>
         orders (fst (snd (create_order jwt_decode remote db_ok False req productname
           product_id quantity s w))) = orders s @ [row]
       \<and> order_log (fst (snd (create_order jwt_decode remote db_ok False req productname
           product_id quantity s w))) = order_log s @ [''Could not publish order event'']
       \<and> orders_exchange (fst (snd (create_order jwt_decode remote db_ok False req productname
           product_id quantity s w))) = orders_exchange s)
   \<and> fst (product_reserve_inventory False product_id quantity ps)
     = fst (product_reserve_inventory True product_id quantity ps)
   \<and> products (snd (product_reserve_inventory False product_id quantity ps))
     = products (snd (product_reserve_inventory True product_id quantity ps))
   \<and> (fst (product_reserve_inventory False product_id quantity ps) = Inr ''reserved'' \<longrightarrow>
         products (snd (product_reserve_inventory False product_id quantity ps))
           = products (decrement_stock quantity product_id ps)
       \<and> product_log (snd (product_reserve_inventory False product_id quantity ps))
           = product_log ps @ [''Could not publish inventory event'']
       \<and> inventory_exchange (snd (product_reserve_inventory False product_id quantity ps))
           = inventory_exchange ps)"
proof (intro conjI allI impI)
  let ?c = "\<lambda>b. create_order jwt_decode remote db_ok b req productname product_id quantity s w"
  show "fst (?c False) = fst (?c True)"
    by (simp add: create_order_def split: sum.splits prod.splits)
  show "orders (fst (snd (?c False))) = orders (fst (snd (?c True)))"
    by (simp add: create_order_def split: sum.splits prod.splits)
  show "snd (snd (?c False)) = snd (snd (?c True))"
    by (simp add: create_order_def split: sum.splits prod.splits)
  fix row assume r: "fst (?c False) = Inr row"
  show "orders (fst (snd (?c False))) = orders s @ [row]"
    using r by (auto simp: create_order_def insert_order_def Let_def
        split: sum.splits prod.splits if_splits)
  show "order_log (fst (snd (?c False))) = order_log s @ [''Could not publish order event'']"
    using r by (auto simp: create_order_def insert_order_def publish_order_event_def Let_def
        split: sum.splits prod.splits if_splits)
  show "orders_exchange (fst (snd (?c False))) = orders_exchange s"
    using r by (auto simp: create_order_def insert_order_def publish_order_event_def Let_def
        split: sum.splits prod.splits if_splits)
next
  let ?r = "\<lambda>b. product_reserve_inventory b product_id quantity ps"
  show "fst (?r False) = fst (?r True)"
    by (simp add: product_reserve_inventory_def split: option.splits)
  show "products (snd (?r False)) = products (snd (?r True))"
    by (simp add: product_reserve_inventory_def split: option.splits)
  assume r: "fst (?r False) = Inr ''reserved''"
  show "products (snd (?r False)) = products (decrement_stock quantity product_id ps)"
    using r by (auto simp: product_reserve_inventory_def split: option.splits if_splits)
  show "product_log (snd (?r False)) = product_log ps @ [''Could not publish inventory event'']"
    using r by (auto simp: product_reserve_inventory_def publish_inventory_event_def
        decrement_stock_def split: option.splits if_splits)
  show "inventory_exchange (snd (?r False)) = inventory_exchange ps"
    using r by (auto simp: product_reserve_inventory_def publish_inventory_event_def
        decrement_stock_def split: option.splits if_splits)
qed

lemma alice_unannounced:
  "create_order tokens (body_server False) True False (bearer ''alice-token'') ''widget'' 42 2
     no_orders (idle shop) = unannounced"
  by (simp add: create_order_def order_reserve_inventory_def backoff_def post_def
      body_server_def reserve_request_def product_reserve_inventory_def fetch_product_def
      shop_def idle_def decrement_stock_def publish_inventory_event_def insert_order_def
      publish_order_event_def no_orders_def unannounced_def Let_def)

text \<open>
  Alice orders two of five widgets while the broker is down: the order is placed, its row
  is stored, three widgets are left, and each service has logged one warning.
\<close>

theorem publish_failure_swallowed_witness:
  "create_order tokens (body_server False) True False (bearer ''alice-token'') ''widget'' 42 2
     no_orders (idle shop) = unannounced
   \<and> fst (create_order tokens (body_server False) True True (bearer ''alice-token'')
        ''widget'' 42 2 no_orders (idle shop)) = fst unannounced
   \<and> map o_status (orders (fst (snd unannounced))) = [''CONFIRMED'']
   \<and> order_log (fst (snd unannounced)) = [''Could not publish order event'']
   \<and> fst (product_reserve_inventory False 42 2 shop) = Inr ''reserved''
   \<and> fst (product_reserve_inventory True 42 2 shop) = Inr ''reserved''
   \<and> stock (snd (product_reserve_inventory False 42 2 shop)) 42 = Some 3
   \<and> product_log (snd (product_reserve_inventory False 42 2 shop))
       = [''Could not publish inventory event'']"
proof -
  note t = publish_failure_swallowed [where jwt_decode = tokens
      and remote = "body_server False" and db_ok = True and req = "bearer ''alice-token''"
      and productname = "''widget''" and product_id = 42 and quantity = 2
      and s = no_orders and w = "idle shop" and ps = shop]
  have five: "stock shop 42 = Some 5"
    by (simp add: shop_def stock_def fetch_product_def)
  have r: "product_reserve_inventory False 42 2 shop
      = (Inr ''reserved'', publish_inventory_event False 42 2 (decrement_stock 2 42 shop))"
    using five by (simp add: reserve_enough)
  have f2: "fst (create_order tokens (body_server False) True True (bearer ''alice-token'')
        ''widget'' 42 2 no_orders (idle shop)) = fst unannounced"
    using t [THEN conjunct1, symmetric] by (simp add: alice_unannounced)
  have f3: "map o_status (orders (fst (snd unannounced))) = [''CONFIRMED'']"
    by (simp add: unannounced_def)
  have f4: "order_log (fst (snd unannounced)) = [''Could not publish order event'']"
    by (simp add: unannounced_def)
  have f5: "fst (product_reserve_inventory False 42 2 shop) = Inr ''reserved''"
    by (simp add: r)
  have f6: "fst (product_reserve_inventory True 42 2 shop) = Inr ''reserved''"
    using t [THEN conjunct2, THEN conjunct2, THEN conjunct2, THEN conjunct2, THEN conjunct1,
        symmetric]
    by (simp add: f5)
  have f7: "stock (snd (product_reserve_inventory False 42 2 shop)) 42 = Some 3"
    using five by (simp add: r stock_decrement_same)
  have quiet: "product_log shop = []" by (simp add: shop_def)
  have f8: "product_log (snd (product_reserve_inventory False 42 2 shop))
      = [''Could not publish inventory event'']"
    by (simp add: r publish_inventory_event_def decrement_stock_def quiet)
  show ?thesis
    by (rule conjI alice_unannounced f2 f3 f4 f5 f6 f7 f8)+
qed

section \<open>The order table\<close>

text \<open>
  C5. Bob, authenticated with his own token, deletes the order that belongs to alice:
  \<^verbatim>\<open>delete_order\<close> deletes by id alone. \<^verbatim>\<open>list_orders\<close>, next to it, does restrict
  itself to the rows of the authenticated user and shows bob nothing.
\<close>

theorem delete_ignores_owner:
  "order_get_current_user tokens (bearer ''bob-token'') = Inr ''bob''
   \<and> map o_username (orders alices_order) = [''alice'']
   \<and> list_orders tokens (bearer ''bob-token'') alices_order = Inr []
   \<and> delete_order tokens (bearer ''bob-token'') 1 alices_order
     = (Inr ''deleted'', alices_order\<lparr>orders := []\<rparr>)"
  by (simp add: delete_order_def list_orders_def order_get_current_user_def oauth2_scheme_def
      tokens_def bearer_def alices_order_def)

text \<open>What a request to \<^verbatim>\<open>create_order\<close> does to the table: nothing, or one new row.\<close>

lemma create_order_table:
  assumes "create_order jwt_decode remote db_ok broker_ok req productname product_id quantity s w
             = (res, s', w')"
  shows "(orders s' = orders s \<and> order_seq s' = order_seq s)
       \<or> (\<exists>user. orders s' = orders s @
              [\<lparr>o_id = order_seq s, o_productname = productname, o_product_id = product_id,
                o_quantity = quantity, o_username = user, o_status = ''CONFIRMED''\<rparr>]
            \<and> order_seq s' = order_seq s + 1)"
  using assms
  by (auto simp: create_order_def insert_order_def Let_def
      split: sum.splits prod.splits if_splits)

lemma delete_order_table:
  assumes "delete_order jwt_decode req order_id s = (res, s')"
  shows "(orders s' = orders s \<or> orders s' = filter (\<lambda>r. o_id r \<noteq> order_id) (orders s))
       \<and> order_seq s' = order_seq s"
  using assms by (auto simp: delete_order_def split: sum.splits if_splits)

text \<open>The three shapes of a step: the table is kept, rows are removed, or one row is added.\<close>

lemma order_step_table:
  assumes "order_step s s'"
  shows "(orders s' = orders s \<and> order_seq s' = order_seq s)
       \<or> (\<exists>order_id. orders s' = filter (\<lambda>r. o_id r \<noteq> order_id) (orders s)
             \<and> order_seq s' = order_seq s)
       \<or> (\<exists>row. orders s' = orders s @ [row] \<and> o_id row = order_seq s
             \<and> o_status row = ''CONFIRMED'' \<and> order_seq s' = order_seq s + 1)"
  using assms
proof cases
  case (step_create jwt_decode remote db_ok broker_ok req productname product_id quantity w res w')
  from create_order_table [OF this] show ?thesis by auto
next
  case (step_delete jwt_decode req order_id res)
  from delete_order_table [OF this] show ?thesis by auto
next
  case (step_list jwt_decode req res)
  then show ?thesis by simp
qed

lemma step_table_ok:
  assumes "table_ok s" and "order_step s s'"
  shows "table_ok s'"
  using order_step_table [OF assms(2)]
proof (elim disjE exE conjE)
  assume "orders s' = orders s" "order_seq s' = order_seq s"
  with assms(1) show ?thesis by (simp add: table_ok_def)
next
  fix order_id
  assume "orders s' = filter (\<lambda>r. o_id r \<noteq> order_id) (orders s)" "order_seq s' = order_seq s"
  with assms(1) show ?thesis
    by (auto simp: table_ok_def list_all_iff distinct_map_filter)
next
  fix row
  assume "orders s' = orders s @ [row]" "o_id row = order_seq s"
    "o_status row = ''CONFIRMED''" "order_seq s' = order_seq s + 1"
  with assms(1) show ?thesis
    by (fastforce simp: table_ok_def list_all_iff)
qed

lemma reachable_table_ok: "reachable s \<Longrightarrow> table_ok s"
proof (induction rule: reachable.induct)
  case (initial s)
  then show ?case by (simp add: table_ok_def)
next
  case (after_step s s')
  then show ?case by (blast intro: step_table_ok)
qed

lemma step_keeps_rows:
  assumes "table_ok s" and "order_step s s'"
    and "r \<in> set (orders s)" and "r' \<in> set (orders s')" and "o_id r' = o_id r"
  shows "r' = r"
proof -
  have old: "x = r" if "x \<in> set (orders s)" "o_id x = o_id r" for x
    using assms(1,3) that by (auto simp: table_ok_def distinct_map inj_on_def)
  have small: "o_id r < order_seq s"
    using assms(1,3) by (auto simp: table_ok_def list_all_iff)
  from order_step_table [OF assms(2)] show ?thesis
  proof (elim disjE exE conjE)
    assume "orders s' = orders s"
    with assms(4,5) old show ?thesis by simp
  next
    fix order_id assume "orders s' = filter (\<lambda>r. o_id r \<noteq> order_id) (orders s)"
    with assms(4,5) old show ?thesis by simp
  next
    fix row assume "orders s' = orders s @ [row]" "o_id row = order_seq s"
    with assms(4,5) old small show ?thesis by auto
  qed
qed

text \<open>
  C9. In every state the order service reaches from an empty table, every order row has
  the status \<^verbatim>\<open>CONFIRMED\<close>. No request changes a row: after any step, a row that has the
  id of a row of the state before is that row, and every row that was not there before
  is \<^verbatim>\<open>CONFIRMED\<close>.
\<close>

theorem orders_confirmed_never_mutated:
  assumes "reachable s"
  shows "(\<forall>r\<in>set (orders s). o_status r = ''CONFIRMED'')
       \<and> (\<forall>s'. order_step s s' \<longrightarrow>
            (\<forall>r\<in>set (orders s). \<forall>r'\<in>set (orders s'). o_id r' = o_id r \<longrightarrow> r' = r)
          \<and> (\<forall>r'\<in>set (orders s'). r' \<in> set (orders s) \<or> o_status r' = ''CONFIRMED''))"
proof -
  have ok: "table_ok s" using assms by (rule reachable_table_ok)
  then have a: "\<forall>r\<in>set (orders s). o_status r = ''CONFIRMED''"
    by (simp add: table_ok_def list_all_iff)
  have b: "\<forall>r\<in>set (orders s). \<forall>r'\<in>set (orders s'). o_id r' = o_id r \<longrightarrow> r' = r"
    if "order_step s s'" for s'
    using step_keeps_rows [OF ok that] by blast
  have c: "\<forall>r'\<in>set (orders s'). r' \<in> set (orders s) \<or> o_status r' = ''CONFIRMED''"
    if "order_step s s'" for s'
    using step_table_ok [OF ok that] by (simp add: table_ok_def list_all_iff)
  from a b c show ?thesis by blast
qed

lemma alice_orders:
  "create_order tokens (answers 200) True True (bearer ''alice-token'') ''widget'' 42 2
     no_orders (idle shop)
   = (Inr \<lparr>o_id = 1, o_productname = ''widget'', o_product_id = 42, o_quantity = 2,
            o_username = ''alice'', o_status = ''CONFIRMED''\<rparr>,
      alices_order,
      \<lparr>remote_state = shop, sent = [reserve_request (bearer ''alice-token'') 42 2],
       slept = []\<rparr>)"
  by (simp add: create_order_def order_reserve_inventory_def backoff_def post_def
      answers_def idle_def insert_order_def publish_order_event_def no_orders_def Let_def
      alices_order_def)

lemma bob_orders:
  "create_order tokens (answers 200) True True (bearer ''bob-token'') ''widget'' 42 1
     alices_order (idle shop)
   = (Inr \<lparr>o_id = 2, o_productname = ''widget'', o_product_id = 42, o_quantity = 1,
            o_username = ''bob'', o_status = ''CONFIRMED''\<rparr>,
      two_orders,
      \<lparr>remote_state = shop, sent = [reserve_request (bearer ''bob-token'') 42 1],
       slept = []\<rparr>)"
  by (simp add: create_order_def order_reserve_inventory_def backoff_def post_def
      answers_def idle_def insert_order_def publish_order_event_def Let_def
      alices_order_def two_orders_def order_get_current_user_def oauth2_scheme_def
      tokens_def bearer_def)

text \<open>
  Alice's order, reached from the empty table, is \<^verbatim>\<open>CONFIRMED\<close>; bob's order is a step
  from there, after which alice's row is what it was and both rows are \<^verbatim>\<open>CONFIRMED\<close>.
\<close>

theorem orders_confirmed_never_mutated_witness:
  "reachable alices_order
   \<and> map o_status (orders alices_order) = [''CONFIRMED'']
   \<and> order_step alices_order two_orders
   \<and> filter (\<lambda>r. o_id r = 1) (orders two_orders) = orders alices_order
   \<and> map o_status (orders two_orders) = [''CONFIRMED'', ''CONFIRMED'']"
proof -
  have "reachable no_orders" by (rule initial) (simp add: no_orders_def)
  moreover have "order_step no_orders alices_order"
    by (rule step_create [OF alice_orders])
  ultimately have r: "reachable alices_order" by (rule after_step)
  have st: "order_step alices_order two_orders"
    by (rule step_create [OF bob_orders])
  from orders_confirmed_never_mutated [OF r] st
  have "\<forall>r'\<in>set (orders two_orders).
      r' \<in> set (orders alices_order) \<or> o_status r' = ''CONFIRMED''"
    by blast
  with r st show ?thesis by (simp add: alices_order_def two_orders_def)
qed

end
